theory Spec2Isabelle
  imports Main "HOL-Library.Sublist"
begin

section \<open>Text primitives\<close>

text \<open>
  A Python \<open>str\<close> is a \<^typ>\<open>string\<close>. The model of \<open>lower()\<close>, \<open>isdigit()\<close> and
  \<open>strip()\<close> below is the one Python has on ASCII text: the 26 capital letters are
  folded, the digits are \<open>0\<close> to \<open>9\<close>, and the blanks are the ten ASCII characters for which
  \<open>str.isspace()\<close> holds. Every other character is left alone. The two replies of the
  classifier that hold an em dash carry it as its three UTF-8 bytes.

  On text with other characters Python does more: \<open>lower()\<close> folds letters of every
  script (U+212A becomes \<open>k\<close>), \<open>isdigit()\<close> holds of the digits of every script, and
  \<open>strip()\<close> removes blanks such as U+00A0. The three definitions below are therefore the
  built-ins on ASCII text only. Where a statement is to hold of every text, the built-ins
  are arguments instead: see \<open>detect_intent_with\<close> and \<open>conversation_with\<close>.
\<close>

definition ascii_uppercase :: string where
  "ascii_uppercase = ''ABCDEFGHIJKLMNOPQRSTUVWXYZ''"

definition ascii_lowercase :: string where
  "ascii_lowercase = ''abcdefghijklmnopqrstuvwxyz''"

definition char_lower :: "char \<Rightarrow> char" where
  "char_lower c =
     (case map_of (zip ascii_uppercase ascii_lowercase) c of
        Some d \<Rightarrow> d
      | None \<Rightarrow> c)"

definition lower :: "string \<Rightarrow> string" where
  "lower t = map char_lower t"

definition isdigit :: "char \<Rightarrow> bool" where
  "isdigit c = (c \<in> set ''0123456789'')"

definition isspace :: "char \<Rightarrow> bool" where
  "isspace c =
     (c \<in> set [CHR 0x09, CHR 0x0A, CHR 0x0B, CHR 0x0C, CHR 0x0D,
               CHR 0x1C, CHR 0x1D, CHR 0x1E, CHR 0x1F, CHR 0x20])"

definition strip :: "string \<Rightarrow> string" where
  "strip t = rev (dropWhile isspace (rev (dropWhile isspace t)))"

text \<open>\<open>k in t\<close> on two strings: \<open>k\<close> occurs in \<open>t\<close> as a contiguous run.\<close>

fun str_in :: "string \<Rightarrow> string \<Rightarrow> bool" where
  "str_in k [] = (k = [])"
| "str_in k (c # cs) = (prefix k (c # cs) \<or> str_in k cs)"

text \<open>\<open>any(k in t for k in ks)\<close>.\<close>

definition any_in :: "string list \<Rightarrow> string \<Rightarrow> bool" where
  "any_in ks t = list_ex (\<lambda>k. str_in k t) ks"

text \<open>The decimal rendering of a non-negative integer in an f-string.\<close>

definition digit_chars :: string where
  "digit_chars = ''0123456789''"

fun str_nat :: "nat \<Rightarrow> string" where
  "str_nat n =
     (if n < 10 then [digit_chars ! n]
      else str_nat (n div 10) @ [digit_chars ! (n mod 10)])"

declare str_nat.simps [simp del]

section \<open>Data model\<close>

text \<open>
  A session is the dict that \<open>start_call\<close> builds. The key \<open>end_time\<close> is absent until the
  call ends; \<^const>\<open>None\<close> stands for the absent key.
\<close>

record session =
  call_id :: string
  caller_number :: string
  start_time :: string
  end_time :: "string option"
  current_menu :: string
  menu_path :: "string list"
  inputs :: "string list"

text \<open>
  The two module-level globals. \<open>session.copy()\<close> is a shallow copy whose lists are shared
  with the original, but the original leaves \<open>active_calls\<close> in the very next statement and
  nothing else refers to it, so a snapshot by value is what the archive holds.
\<close>

record store =
  active_calls :: "string \<rightharpoonup> session"
  call_history :: "session list"

definition empty_store :: store where
  "empty_store = \<lparr>active_calls = Map.empty, call_history = []\<rparr>"

record menu_option =
  opt_message :: string
  opt_next :: "string option"

record menu =
  prompt :: string
  options :: "(string \<times> menu_option) list"

definition main_menu :: menu where
  "main_menu =
     \<lparr>prompt = ''Welcome to Indian Railways Customer Support. You can say 'book ticket', 'train status' or 'refund'.'',
      options =
        [(''booking'', \<lparr>opt_message = ''You selected Ticket Booking.'', opt_next = Some ''booking''\<rparr>),
         (''train_status'', \<lparr>opt_message = ''You selected Train Status.'', opt_next = Some ''train_status''\<rparr>),
         (''refund'', \<lparr>opt_message = ''You selected Refund Enquiry.'', opt_next = Some ''refund''\<rparr>),
         (''agent'', \<lparr>opt_message = ''Connecting you to an agent.'', opt_next = None\<rparr>)]\<rparr>"

definition booking_menu :: menu where
  "booking_menu =
     \<lparr>prompt = ''Booking Menu. Say 'sleeper' or 'ac' or say 'back' to return.'', options = []\<rparr>"

definition train_status_menu :: menu where
  "train_status_menu =
     \<lparr>prompt = ''Please say or enter your 6-digit PNR number.'', options = []\<rparr>"

definition refund_menu :: menu where
  "refund_menu =
     \<lparr>prompt = ''Refund Menu. Say 'cancelled' or 'tatkal' or say 'back' to return.'', options = []\<rparr>"

definition MENU_STRUCTURE :: "string \<rightharpoonup> menu" where
  "MENU_STRUCTURE =
     map_of [(''main'', main_menu), (''booking'', booking_menu),
             (''train_status'', train_status_menu), (''refund'', refund_menu)]"

text \<open>\<open>MENU_STRUCTURE["main"]["prompt"]\<close>; the key is there, see \<open>MENU_STRUCTURE_main\<close>.\<close>

definition main_prompt :: string where
  "main_prompt = prompt main_menu"

section \<open>Intent detection\<close>

definition em_dash :: string where
  "em_dash = [CHR 0xE2, CHR 0x80, CHR 0x94]"

definition booking_reply :: string where
  "booking_reply =
     ''Sure '' @ em_dash @ '' I can help with booking. Do you want Sleeper or AC class?''"

definition train_status_reply :: string where
  "train_status_reply = ''Please tell me your 6-digit PNR number.''"

definition refund_reply :: string where
  "refund_reply =
     ''I can help with refunds. Is this for a cancelled train or a tatkal booking?''"

definition agent_reply :: string where
  "agent_reply = ''Okay '' @ em_dash @ '' transferring you to an agent. Please hold.''"

definition pnr_reply :: "string \<Rightarrow> string" where
  "pnr_reply pnr = ''PNR '' @ pnr @ '' is CONFIRMED. Train AI101 from Mumbai to Delhi.''"

text \<open>
  \<open>detect_intent\<close> returns a pair that is either two strings or \<open>(None, None)\<close>;
  \<^const>\<open>None\<close> is the second.
\<close>

definition detect_intent :: "string \<Rightarrow> (string \<times> string) option" where
  "detect_intent text =
     (let t = lower text in
      if any_in [''book'', ''ticket'', ''booking'', ''reserve''] t then
        Some (''booking'', booking_reply)
      else if any_in [''status'', ''pnr'', ''flight status'', ''train status''] t then
        Some (''train_status'', train_status_reply)
      else if any_in [''refund'', ''cancel'', ''tatkal'', ''money back''] t then
        Some (''refund'', refund_reply)
      else if any_in [''agent'', ''human'', ''representative'', ''help''] t then
        Some (''agent'', agent_reply)
      else if any_in [''back'', ''main'', ''menu''] t then
        Some (''main'', main_prompt)
      else
        (let digits = filter isdigit t in
         if 6 \<le> length digits then Some (''pnr_lookup'', pnr_reply (take 6 digits))
         else None))"

section \<open>The optional fallback\<close>

text \<open>
  \<open>configured\<close> is the truth of \<open>OPENAI_API_KEY and openai\<close>. \<open>service\<close> is the guarded
  remote call with its \<open>except\<close> branch: the stripped text of the reply, or \<^const>\<open>None\<close>
  when anything was raised.
\<close>

definition openai_fallback :: "bool \<Rightarrow> (string \<Rightarrow> string option) \<Rightarrow> string \<Rightarrow> string option" where
  "openai_fallback configured service prompt_text =
     (if \<not> configured then None else service prompt_text)"

section \<open>Endpoints\<close>

datatype error = HTTPException nat string

record CallStart =
  cs_caller_number :: string

record ConversationRequest =
  input_text :: string
  cr_call_id :: "string option"

record DTMFInput =
  di_call_id :: string
  digit :: string
  di_current_menu :: "string option"

record start_response =
  sr_call_id :: string
  sr_status :: string
  sr_prompt :: string

text \<open>The \<open>transferred\<close> reply has no \<open>current_menu\<close> key: \<^const>\<open>None\<close>.\<close>

record dtmf_response =
  dr_status :: string
  dr_message :: string
  dr_current_menu :: "string option"

record conversation_response =
  cv_intent :: string
  cv_message :: string
  cv_call_id :: "string option"

record end_response =
  er_status :: string

text \<open>
  \<open>draw\<close> is the value of \<open>random.randint(100000, 999999)\<close> and \<open>now\<close> that of
  \<open>datetime.utcnow().isoformat()\<close>. The assignment \<open>active_calls[call_id] = session\<close>
  replaces whatever the key held.
\<close>

definition start_call :: "nat \<Rightarrow> string \<Rightarrow> CallStart \<Rightarrow> store \<Rightarrow> start_response \<times> store" where
  "start_call draw now call st =
     (let cid = ''CALL_'' @ str_nat draw;
          new_session =
            \<lparr>call_id = cid, caller_number = cs_caller_number call, start_time = now,
             end_time = None, current_menu = ''main'', menu_path = [''main''], inputs = []\<rparr>
      in (\<lparr>sr_call_id = cid, sr_status = ''connected'', sr_prompt = main_prompt\<rparr>,
          st\<lparr>active_calls := (active_calls st)(cid \<mapsto> new_session)\<rparr>))"

definition mapping :: "string \<rightharpoonup> string" where
  "mapping =
     map_of [(''1'', ''booking''), (''2'', ''train_status''), (''3'', ''refund''),
             (''9'', ''agent''), (''0'', ''main'')]"

text \<open>
  The session is mutated in place, so each write goes to the entry of the registry.
  The result is \<open>Inl\<close> for the raised exception and \<open>Inr None\<close> where the body would
  run off its end.
\<close>

definition handle_dtmf ::
  "string \<Rightarrow> DTMFInput \<Rightarrow> store \<Rightarrow> (error + dtmf_response option) \<times> store" where
  "handle_dtmf now inp st =
     (let cid = di_call_id inp in
      case active_calls st cid of
        None \<Rightarrow> (Inl (HTTPException 404 ''Call not found''), st)
      | Some session0 \<Rightarrow>
          (let d = digit inp;
               sess = session0\<lparr>inputs := inputs session0 @ [d]\<rparr>;
               st1 = st\<lparr>active_calls := (active_calls st)(cid \<mapsto> sess)\<rparr>;
               move = (\<lambda>target msg.
                        (Inr (Some \<lparr>dr_status = ''ok'', dr_message = msg,
                                     dr_current_menu = Some target\<rparr>),
                         st1\<lparr>active_calls := (active_calls st1)(cid \<mapsto>
                               sess\<lparr>current_menu := target,
                                    menu_path := menu_path sess @ [target]\<rparr>)\<rparr>))
           in case mapping d of
                None \<Rightarrow>
                  (Inr (Some \<lparr>dr_status = ''invalid'', dr_message = ''Invalid option. Try again.'',
                               dr_current_menu = Some (current_menu sess)\<rparr>), st1)
              | Some intent \<Rightarrow>
                  if intent = [] then
                    (Inr (Some \<lparr>dr_status = ''invalid'', dr_message = ''Invalid option. Try again.'',
                                 dr_current_menu = Some (current_menu sess)\<rparr>), st1)
                  else if intent = ''agent'' then
                    (Inr (Some \<lparr>dr_status = ''transferred'',
                                 dr_message = ''Transferring to agent...'',
                                 dr_current_menu = None\<rparr>),
                     \<lparr>active_calls = (active_calls st1)(cid := None),
                      call_history = call_history st1 @ [sess\<lparr>end_time := Some now\<rparr>]\<rparr>)
                  else if intent = ''booking'' then
                    move ''booking'' ''You selected Booking. Do you want Sleeper or AC?''
                  else if intent = ''train_status'' then
                    move ''train_status'' ''Please enter your 6-digit PNR.''
                  else if intent = ''refund'' then
                    move ''refund'' ''Refund menu. Say 'cancelled' or 'tatkal'.''
                  else if intent = ''main'' then
                    move ''main'' main_prompt
                  else (Inr None, st1)))"

text \<open>
  \<open>if call_id and call_id in active_calls\<close>: an absent or empty id attaches no session.
  \<open>if ai_reply\<close> is false for the empty string as well.
\<close>

definition help_msg :: string where
  "help_msg = ''Sorry, I didn't get that. You can say 'book ticket', 'train status', or 'refund'.''"

definition attached :: "string option \<Rightarrow> store \<Rightarrow> (string \<times> session) option" where
  "attached cid st =
     (case cid of
        None \<Rightarrow> None
      | Some c \<Rightarrow>
          if c = [] then None
          else (case active_calls st c of None \<Rightarrow> None | Some s \<Rightarrow> Some (c, s)))"

definition conversation ::
  "bool \<Rightarrow> (string \<Rightarrow> string option) \<Rightarrow> ConversationRequest \<Rightarrow> store
     \<Rightarrow> conversation_response \<times> store" where
  "conversation configured service req st =
     (let text = strip (input_text req);
          cid = cr_call_id req;
          unclassified =
            (case openai_fallback configured service text of
               Some ai_reply \<Rightarrow>
                 if ai_reply \<noteq> [] then
                   (\<lparr>cv_intent = ''ai_fallback'', cv_message = ai_reply, cv_call_id = cid\<rparr>, st)
                 else (\<lparr>cv_intent = ''unknown'', cv_message = help_msg, cv_call_id = cid\<rparr>, st)
             | None \<Rightarrow> (\<lparr>cv_intent = ''unknown'', cv_message = help_msg, cv_call_id = cid\<rparr>, st))
      in case detect_intent text of
           None \<Rightarrow> unclassified
         | Some (intent, message) \<Rightarrow>
             if intent = [] then unclassified
             else
               (\<lparr>cv_intent = intent, cv_message = message, cv_call_id = cid\<rparr>,
                case attached cid st of
                  None \<Rightarrow> st
                | Some (c, sess) \<Rightarrow>
                    if intent \<in> set [''booking'', ''train_status'', ''refund'', ''main''] then
                      st\<lparr>active_calls := (active_calls st)(c \<mapsto>
                            sess\<lparr>current_menu :=
                                   (if intent \<noteq> ''pnr_lookup'' then intent else current_menu sess),
                                 menu_path := menu_path sess @ [intent]\<rparr>)\<rparr>
                    else st))"

definition end_call :: "string \<Rightarrow> string \<Rightarrow> store \<Rightarrow> end_response \<times> store" where
  "end_call now cid st =
     (case active_calls st cid of
        None \<Rightarrow> (\<lparr>er_status = ''not_found''\<rparr>, st)
      | Some sess \<Rightarrow>
          (\<lparr>er_status = ''ended''\<rparr>,
           \<lparr>active_calls = (active_calls st)(cid := None),
            call_history = call_history st @ [sess\<lparr>end_time := Some now\<rparr>]\<rparr>))"

section \<open>The text path with the built-ins as arguments\<close>

text \<open>
  \<open>str.strip()\<close>, \<open>str.lower()\<close> and \<open>str.isdigit()\<close> follow the Unicode tables of the
  interpreter, which are no part of this program. Here they are arguments, so that what is
  proved holds whatever they do, on text in any script. A text is its UTF-8 encoding; a
  keyword of the classifier is ASCII and occurs in the encoding exactly where it occurs
  among the characters.
  \<^item> \<open>strip_fn t\<close> is \<open>t.strip()\<close> and \<open>lower_fn t\<close> is \<open>t.lower()\<close>.
  \<^item> \<open>digits_fn t\<close> lists the characters of \<open>t\<close> of which \<open>isdigit()\<close> holds, in order, each
    as its own string: \<open>len(digits)\<close> is the length of the list and \<open>digits[:6]\<close> the
    concatenation of its first six elements.

  On ASCII text the three are \<open>strip\<close>, \<open>lower\<close> and \<open>ascii_digits\<close>, and the two definitions
  are then \<open>detect_intent\<close> and \<open>conversation\<close> (\<open>detect_intent_with_ascii\<close>,
  \<open>conversation_with_ascii\<close>).
\<close>

definition ascii_digits :: "string \<Rightarrow> string list" where
  "ascii_digits t = map (\<lambda>c. [c]) (filter isdigit t)"

definition detect_intent_with ::
  "(string \<Rightarrow> string) \<Rightarrow> (string \<Rightarrow> string list) \<Rightarrow> string \<Rightarrow> (string \<times> string) option" where
  "detect_intent_with lower_fn digits_fn text =
     (let t = lower_fn text in
      if any_in [''book'', ''ticket'', ''booking'', ''reserve''] t then
        Some (''booking'', booking_reply)
      else if any_in [''status'', ''pnr'', ''flight status'', ''train status''] t then
        Some (''train_status'', train_status_reply)
      else if any_in [''refund'', ''cancel'', ''tatkal'', ''money back''] t then
        Some (''refund'', refund_reply)
      else if any_in [''agent'', ''human'', ''representative'', ''help''] t then
        Some (''agent'', agent_reply)
      else if any_in [''back'', ''main'', ''menu''] t then
        Some (''main'', main_prompt)
      else
        (let digits = digits_fn t in
         if 6 \<le> length digits then
           Some (''pnr_lookup'', pnr_reply (concat (take 6 digits)))
         else None))"

definition conversation_with ::
  "(string \<Rightarrow> string) \<Rightarrow> (string \<Rightarrow> string) \<Rightarrow> (string \<Rightarrow> string list) \<Rightarrow>
   bool \<Rightarrow> (string \<Rightarrow> string option) \<Rightarrow> ConversationRequest \<Rightarrow> store
     \<Rightarrow> conversation_response \<times> store" where
  "conversation_with strip_fn lower_fn digits_fn configured service req st =
     (let text = strip_fn (input_text req);
          cid = cr_call_id req;
          unclassified =
            (case openai_fallback configured service text of
               Some ai_reply \<Rightarrow>
                 if ai_reply \<noteq> [] then
                   (\<lparr>cv_intent = ''ai_fallback'', cv_message = ai_reply, cv_call_id = cid\<rparr>, st)
                 else (\<lparr>cv_intent = ''unknown'', cv_message = help_msg, cv_call_id = cid\<rparr>, st)
             | None \<Rightarrow> (\<lparr>cv_intent = ''unknown'', cv_message = help_msg, cv_call_id = cid\<rparr>, st))
      in case detect_intent_with lower_fn digits_fn text of
           None \<Rightarrow> unclassified
         | Some (intent, message) \<Rightarrow>
             if intent = [] then unclassified
             else
               (\<lparr>cv_intent = intent, cv_message = message, cv_call_id = cid\<rparr>,
                case attached cid st of
                  None \<Rightarrow> st
                | Some (c, sess) \<Rightarrow>
                    if intent \<in> set [''booking'', ''train_status'', ''refund'', ''main''] then
                      st\<lparr>active_calls := (active_calls st)(c \<mapsto>
                            sess\<lparr>current_menu :=
                                   (if intent \<noteq> ''pnr_lookup'' then intent else current_menu sess),
                                 menu_path := menu_path sess @ [intent]\<rparr>)\<rparr>
                    else st))"

section \<open>The invariant of the store and the states the endpoints reach\<close>

definition session_ok :: "session \<Rightarrow> bool" where
  "session_ok s = (menu_path s \<noteq> [] \<and> current_menu s = last (menu_path s))"

definition store_inv :: "store \<Rightarrow> bool" where
  "store_inv st =
     ((\<forall>cid s. active_calls st cid = Some s \<longrightarrow> session_ok s) \<and>
      (\<forall>s \<in> set (call_history st). end_time s \<noteq> None))"

text \<open>
  The process starts with both globals empty; every request is one of the four endpoints.
  The draw of \<open>start_call\<close> lies in the range \<open>randint\<close> is given.
\<close>

inductive reachable :: "store \<Rightarrow> bool" where
  r_init: "reachable empty_store"
| r_start: "reachable st \<Longrightarrow> 100000 \<le> draw \<Longrightarrow> draw \<le> 999999 \<Longrightarrow>
          reachable (snd (start_call draw now call st))"
| r_dtmf: "reachable st \<Longrightarrow> reachable (snd (handle_dtmf now inp st))"
| r_text: "reachable st \<Longrightarrow> reachable (snd (conversation configured service req st))"
| r_end: "reachable st \<Longrightarrow> reachable (snd (end_call now cid st))"

section \<open>A concrete call\<close>

definition demo_session :: session where
  "demo_session =
     \<lparr>call_id = ''CALL_100000'', caller_number = ''9999999999'',
      start_time = ''2024-01-01T10:00:00'', end_time = None, current_menu = ''main'',
      menu_path = [''main''], inputs = []\<rparr>"

definition demo_store :: store where
  "demo_store = \<lparr>active_calls = [''CALL_100000'' \<mapsto> demo_session], call_history = []\<rparr>"

definition demo_dtmf :: "string \<Rightarrow> DTMFInput" where
  "demo_dtmf d = \<lparr>di_call_id = ''CALL_100000'', digit = d, di_current_menu = Some ''main''\<rparr>"

definition reply_of :: "error + dtmf_response option \<Rightarrow> dtmf_response option" where
  "reply_of r = (case r of Inl e \<Rightarrow> None | Inr x \<Rightarrow> x)"

definition demo_request :: "string \<Rightarrow> ConversationRequest" where
  "demo_request t = \<lparr>input_text = t, cr_call_id = Some ''CALL_100000''\<rparr>"

section \<open>Basic facts\<close>


lemma MENU_STRUCTURE_main: "MENU_STRUCTURE ''main'' = Some main_menu"
  by (simp add: MENU_STRUCTURE_def)

lemma mapping_None: "(mapping d = None) = (d \<notin> {''1'', ''2'', ''3'', ''9'', ''0''})"
  by (simp add: mapping_def)

lemma mapping_simps:
  "mapping ''1'' = Some ''booking''" "mapping ''2'' = Some ''train_status''"
  "mapping ''3'' = Some ''refund''" "mapping ''9'' = Some ''agent''" "mapping ''0'' = Some ''main''"
  by (simp_all add: mapping_def)

lemma str_nat_100000: "str_nat 100000 = ''100000''"
  by (simp add: str_nat.simps digit_chars_def)

lemma demo_store_start:
  "snd (start_call 100000 ''2024-01-01T10:00:00'' \<lparr>cs_caller_number = ''9999999999''\<rparr> empty_store)
     = demo_store"
  by (simp add: start_call_def Let_def str_nat_100000 empty_store_def demo_store_def demo_session_def)

lemma reachable_demo_store: "reachable demo_store"
proof -
  have "reachable (snd (start_call 100000 ''2024-01-01T10:00:00''
          \<lparr>cs_caller_number = ''9999999999''\<rparr> empty_store))"
    by (rule reachable.r_start[OF reachable.r_init]) simp_all
  then show ?thesis by (simp only: demo_store_start)
qed

section \<open>The invariant is kept\<close>

lemma inv_empty: "store_inv empty_store"
  by (simp add: store_inv_def empty_store_def)

lemma inv_start_call: "store_inv st \<Longrightarrow> store_inv (snd (start_call draw now call st))"
  by (auto simp: store_inv_def start_call_def Let_def session_ok_def)

lemma inv_handle_dtmf: "store_inv st \<Longrightarrow> store_inv (snd (handle_dtmf now inp st))"
  by (auto simp: store_inv_def handle_dtmf_def Let_def session_ok_def
           split: option.splits if_splits)

lemma inv_conversation:
  "store_inv st \<Longrightarrow> store_inv (snd (conversation configured service req st))"
  by (auto simp: store_inv_def conversation_def Let_def session_ok_def attached_def
           split: option.splits if_splits prod.splits)

lemma inv_end_call: "store_inv st \<Longrightarrow> store_inv (snd (end_call now cid st))"
  by (auto simp: store_inv_def end_call_def session_ok_def split: option.splits if_splits)

text \<open>
  C1. In every state the endpoints can reach from the empty store, each session of the
  active registry has a non-empty \<open>menu_path\<close> whose last element is its \<open>current_menu\<close>,
  and each session of the archive has an \<open>end_time\<close>; \<open>start_call\<close>, \<open>handle_dtmf\<close>,
  \<open>conversation\<close> and \<open>end_call\<close> each keep this, whatever their arguments.
\<close>

theorem store_invariant:
  "(reachable st \<longrightarrow> store_inv st) \<and>
   (store_inv st \<longrightarrow>
      store_inv (snd (start_call draw now call st)) \<and>
      store_inv (snd (handle_dtmf now inp st)) \<and>
      store_inv (snd (conversation configured service req st)) \<and>
      store_inv (snd (end_call now cid st)))"
proof -
  have "reachable st \<Longrightarrow> store_inv st"
    by (induction rule: reachable.induct)
       (simp_all add: inv_empty inv_start_call inv_handle_dtmf inv_conversation inv_end_call)
  then show ?thesis
    by (simp add: inv_start_call inv_handle_dtmf inv_conversation inv_end_call)
qed

theorem store_invariant_witness:
  "reachable demo_store \<and> store_inv demo_store \<and>
   store_inv (snd (start_call 100000 ''2024-01-01T10:05:00'' \<lparr>cs_caller_number = ''12345''\<rparr> demo_store)) \<and>
   store_inv (snd (handle_dtmf ''2024-01-01T10:05:00'' (demo_dtmf ''9'') demo_store)) \<and>
   store_inv (snd (conversation False (\<lambda>t. None)
      \<lparr>input_text = ''refund please'', cr_call_id = Some ''CALL_100000''\<rparr> demo_store)) \<and>
   store_inv (snd (end_call ''2024-01-01T10:05:00'' ''CALL_100000'' demo_store))"
  using store_invariant [of demo_store 100000 "''2024-01-01T10:05:00''"
      "\<lparr>cs_caller_number = ''12345''\<rparr>" "demo_dtmf ''9''" False "\<lambda>t. None"
      "\<lparr>input_text = ''refund please'', cr_call_id = Some ''CALL_100000''\<rparr>" "''CALL_100000''"]
    reachable_demo_store
  by simp

section \<open>The classifier\<close>







section \<open>Digits\<close>

lemma handle_dtmf_active:
  assumes "active_calls st (di_call_id inp) = Some s"
  shows "handle_dtmf now inp st =
    (let cid = di_call_id inp; d = digit inp;
         sess = s\<lparr>inputs := inputs s @ [d]\<rparr>;
         st1 = st\<lparr>active_calls := (active_calls st)(cid \<mapsto> sess)\<rparr>
     in if d = ''9'' then
          (Inr (Some \<lparr>dr_status = ''transferred'', dr_message = ''Transferring to agent...'',
                       dr_current_menu = None\<rparr>),
           \<lparr>active_calls = (active_calls st)(cid := None),
            call_history = call_history st @ [sess\<lparr>end_time := Some now\<rparr>]\<rparr>)
        else if d = ''1'' then
          (Inr (Some \<lparr>dr_status = ''ok'', dr_message = ''You selected Booking. Do you want Sleeper or AC?'',
                       dr_current_menu = Some ''booking''\<rparr>),
           st\<lparr>active_calls := (active_calls st)(cid \<mapsto>
                  sess\<lparr>current_menu := ''booking'', menu_path := menu_path s @ [''booking'']\<rparr>)\<rparr>)
        else if d = ''2'' then
          (Inr (Some \<lparr>dr_status = ''ok'', dr_message = ''Please enter your 6-digit PNR.'',
                       dr_current_menu = Some ''train_status''\<rparr>),
           st\<lparr>active_calls := (active_calls st)(cid \<mapsto>
                  sess\<lparr>current_menu := ''train_status'', menu_path := menu_path s @ [''train_status'']\<rparr>)\<rparr>)
        else if d = ''3'' then
          (Inr (Some \<lparr>dr_status = ''ok'', dr_message = ''Refund menu. Say 'cancelled' or 'tatkal'.'',
                       dr_current_menu = Some ''refund''\<rparr>),
           st\<lparr>active_calls := (active_calls st)(cid \<mapsto>
                  sess\<lparr>current_menu := ''refund'', menu_path := menu_path s @ [''refund'']\<rparr>)\<rparr>)
        else if d = ''0'' then
          (Inr (Some \<lparr>dr_status = ''ok'', dr_message = main_prompt,
                       dr_current_menu = Some ''main''\<rparr>),
           st\<lparr>active_calls := (active_calls st)(cid \<mapsto>
                  sess\<lparr>current_menu := ''main'', menu_path := menu_path s @ [''main'']\<rparr>)\<rparr>)
        else
          (Inr (Some \<lparr>dr_status = ''invalid'', dr_message = ''Invalid option. Try again.'',
                       dr_current_menu = Some (current_menu s)\<rparr>), st1))"
  using assms by (simp add: handle_dtmf_def Let_def mapping_def)

lemma menu_prompts:
  "map_option prompt (MENU_STRUCTURE ''main'') = Some main_prompt"
  "map_option prompt (MENU_STRUCTURE ''booking'') = Some ''Booking Menu. Say 'sleeper' or 'ac' or say 'back' to return.''"
  "map_option prompt (MENU_STRUCTURE ''train_status'') = Some ''Please say or enter your 6-digit PNR number.''"
  "map_option prompt (MENU_STRUCTURE ''refund'') = Some ''Refund Menu. Say 'cancelled' or 'tatkal' or say 'back' to return.''"
  by (simp_all add: MENU_STRUCTURE_def main_prompt_def booking_menu_def train_status_menu_def
        refund_menu_def)

lemma demo_active: "active_calls demo_store ''CALL_100000'' = Some demo_session"
  by (simp add: demo_store_def)

text \<open>
  C3 as stated fails: the reply to digit 1 is a text of the handler's own, not the prompt
  that the menu catalog holds for the booking menu.
\<close>

theorem handle_dtmf_catalog_prompt_counterexample:
  "reachable demo_store \<and>
   active_calls demo_store ''CALL_100000'' = Some demo_session \<and>
   map_option dr_status (reply_of (fst (handle_dtmf ''2024-01-01T10:05:00'' (demo_dtmf ''1'') demo_store)))
     = Some ''ok'' \<and>
   map_option dr_message (reply_of (fst (handle_dtmf ''2024-01-01T10:05:00'' (demo_dtmf ''1'') demo_store)))
     = Some ''You selected Booking. Do you want Sleeper or AC?'' \<and>
   map_option prompt (MENU_STRUCTURE ''booking'')
     = Some ''Booking Menu. Say 'sleeper' or 'ac' or say 'back' to return.'' \<and>
   map_option dr_message (reply_of (fst (handle_dtmf ''2024-01-01T10:05:00'' (demo_dtmf ''1'') demo_store)))
     \<noteq> map_option prompt (MENU_STRUCTURE ''booking'')"
proof -
  have a: "active_calls demo_store (di_call_id (demo_dtmf ''1'')) = Some demo_session"
    by (simp add: demo_dtmf_def demo_store_def)
  have r: "fst (handle_dtmf ''2024-01-01T10:05:00'' (demo_dtmf ''1'') demo_store) =
      Inr (Some \<lparr>dr_status = ''ok'',
                  dr_message = ''You selected Booking. Do you want Sleeper or AC?'',
                  dr_current_menu = Some ''booking''\<rparr>)"
    unfolding handle_dtmf_active [OF a] by (simp add: Let_def demo_dtmf_def)
  show ?thesis
    by (simp add: r reply_of_def reachable_demo_store demo_active menu_prompts)
qed

text \<open>
  C3, amended. For a session of the active registry and a digit among 1, 2, 3 and 0,
  \<open>handle_dtmf\<close> appends the digit to \<open>inputs\<close>, sets \<open>current_menu\<close> to the mapped
  target, appends the target to \<open>menu_path\<close>, and returns status "ok" with the target and
  the reply the handler holds for that digit. That reply is the catalog's prompt of the
  target for 0 (main) only.
\<close>

theorem handle_dtmf_menu_digit:
  assumes act: "active_calls st (di_call_id inp) = Some s"
    and dg: "(digit inp, target, msg) \<in>
       {(''1'', ''booking'', ''You selected Booking. Do you want Sleeper or AC?''),
        (''2'', ''train_status'', ''Please enter your 6-digit PNR.''),
        (''3'', ''refund'', ''Refund menu. Say 'cancelled' or 'tatkal'.''),
        (''0'', ''main'', prompt main_menu)}"
  shows "handle_dtmf now inp st =
      (Inr (Some \<lparr>dr_status = ''ok'', dr_message = msg, dr_current_menu = Some target\<rparr>),
       st\<lparr>active_calls := (active_calls st)(di_call_id inp \<mapsto>
            s\<lparr>inputs := inputs s @ [digit inp], current_menu := target,
              menu_path := menu_path s @ [target]\<rparr>)\<rparr>) \<and>
    (map_option prompt (MENU_STRUCTURE target) = Some msg) = (target = ''main'')"
proof -
  from dg consider
      "digit inp = ''1''" "target = ''booking''" "msg = ''You selected Booking. Do you want Sleeper or AC?''"
    | "digit inp = ''2''" "target = ''train_status''" "msg = ''Please enter your 6-digit PNR.''"
    | "digit inp = ''3''" "target = ''refund''" "msg = ''Refund menu. Say 'cancelled' or 'tatkal'.''"
    | "digit inp = ''0''" "target = ''main''" "msg = prompt main_menu"
    by auto
  then show ?thesis
  proof cases
    case 1
    then show ?thesis unfolding handle_dtmf_active [OF act] by (simp add: Let_def menu_prompts)
  next
    case 2
    then show ?thesis unfolding handle_dtmf_active [OF act] by (simp add: Let_def menu_prompts)
  next
    case 3
    then show ?thesis unfolding handle_dtmf_active [OF act] by (simp add: Let_def menu_prompts)
  next
    case 4
    then show ?thesis unfolding handle_dtmf_active [OF act]
      by (simp add: Let_def menu_prompts main_prompt_def)
  qed
qed

theorem handle_dtmf_menu_digit_witness:
  "active_calls demo_store (di_call_id (demo_dtmf ''2'')) = Some demo_session \<and>
   handle_dtmf ''2024-01-01T10:05:00'' (demo_dtmf ''2'') demo_store =
     (Inr (Some \<lparr>dr_status = ''ok'', dr_message = ''Please enter your 6-digit PNR.'',
                  dr_current_menu = Some ''train_status''\<rparr>),
      \<lparr>active_calls = [''CALL_100000'' \<mapsto>
          demo_session\<lparr>inputs := [''2''], current_menu := ''train_status'',
            menu_path := [''main'', ''train_status'']\<rparr>],
       call_history = []\<rparr>)"
proof -
  have a: "active_calls demo_store (di_call_id (demo_dtmf ''2'')) = Some demo_session"
    by (simp add: demo_dtmf_def demo_store_def)
  have d: "(digit (demo_dtmf ''2''), ''train_status'', ''Please enter your 6-digit PNR.'') \<in>
       {(''1'', ''booking'', ''You selected Booking. Do you want Sleeper or AC?''),
        (''2'', ''train_status'', ''Please enter your 6-digit PNR.''),
        (''3'', ''refund'', ''Refund menu. Say 'cancelled' or 'tatkal'.''),
        (''0'', ''main'', prompt main_menu)}"
    by (simp add: demo_dtmf_def)
  show ?thesis
    using handle_dtmf_menu_digit [OF a d, of "''2024-01-01T10:05:00''"] a
    by (simp add: demo_dtmf_def demo_store_def demo_session_def)
qed

text \<open>
  C4 as stated fails: an unmapped digit is still appended to the session's \<open>inputs\<close>, so
  the session and with it the active registry change.
\<close>

theorem handle_dtmf_invalid_digit_counterexample:
  "reachable demo_store \<and>
   map_option dr_status (reply_of (fst (handle_dtmf ''2024-01-01T10:05:00'' (demo_dtmf ''5'') demo_store)))
     = Some ''invalid'' \<and>
   map_option inputs (active_calls demo_store ''CALL_100000'') = Some [] \<and>
   map_option inputs
     (active_calls (snd (handle_dtmf ''2024-01-01T10:05:00'' (demo_dtmf ''5'') demo_store)) ''CALL_100000'')
     = Some [''5''] \<and>
   active_calls (snd (handle_dtmf ''2024-01-01T10:05:00'' (demo_dtmf ''5'') demo_store))
     \<noteq> active_calls demo_store"
proof -
  have a: "active_calls demo_store (di_call_id (demo_dtmf ''5'')) = Some demo_session"
    by (simp add: demo_dtmf_def demo_store_def)
  have r: "handle_dtmf ''2024-01-01T10:05:00'' (demo_dtmf ''5'') demo_store =
      (Inr (Some \<lparr>dr_status = ''invalid'', dr_message = ''Invalid option. Try again.'',
                   dr_current_menu = Some ''main''\<rparr>),
       \<lparr>active_calls = [''CALL_100000'' \<mapsto> demo_session\<lparr>inputs := [''5'']\<rparr>],
        call_history = []\<rparr>)"
    unfolding handle_dtmf_active [OF a]
    by (simp add: Let_def demo_dtmf_def demo_store_def demo_session_def)
  have i: "map_option inputs (active_calls demo_store ''CALL_100000'') = Some []"
    by (simp add: demo_store_def demo_session_def)
  have j: "map_option inputs
     (active_calls (snd (handle_dtmf ''2024-01-01T10:05:00'' (demo_dtmf ''5'') demo_store)) ''CALL_100000'')
     = Some [''5'']"
    by (simp add: r)
  have "active_calls (snd (handle_dtmf ''2024-01-01T10:05:00'' (demo_dtmf ''5'') demo_store))
     \<noteq> active_calls demo_store"
  proof
    assume e: "active_calls (snd (handle_dtmf ''2024-01-01T10:05:00'' (demo_dtmf ''5'') demo_store))
      = active_calls demo_store"
    have "map_option inputs
        (active_calls (snd (handle_dtmf ''2024-01-01T10:05:00'' (demo_dtmf ''5'') demo_store))
           ''CALL_100000'')
      = map_option inputs (active_calls demo_store ''CALL_100000'')"
      by (simp only: e)
    then show False unfolding i j by simp
  qed
  then show ?thesis
    by (simp add: i j reachable_demo_store) (simp add: r reply_of_def)
qed

text \<open>
  C4, amended. For a session of the active registry and a digit outside 1, 2, 3, 9, 0,
  \<open>handle_dtmf\<close> returns status "invalid" with the retry message and the session's
  \<open>current_menu\<close>; \<open>current_menu\<close>, \<open>menu_path\<close>, the keys of the registry, its other
  sessions and the archive are unchanged, and the only change is the digit appended to the
  session's \<open>inputs\<close>.
\<close>

theorem handle_dtmf_invalid_digit:
  assumes act: "active_calls st (di_call_id inp) = Some s"
    and dg: "digit inp \<notin> {''1'', ''2'', ''3'', ''9'', ''0''}"
  shows "handle_dtmf now inp st =
      (Inr (Some \<lparr>dr_status = ''invalid'', dr_message = ''Invalid option. Try again.'',
                   dr_current_menu = Some (current_menu s)\<rparr>),
       st\<lparr>active_calls := (active_calls st)(di_call_id inp \<mapsto>
            s\<lparr>inputs := inputs s @ [digit inp]\<rparr>)\<rparr>) \<and>
    map_option current_menu (active_calls (snd (handle_dtmf now inp st)) (di_call_id inp))
      = Some (current_menu s) \<and>
    map_option menu_path (active_calls (snd (handle_dtmf now inp st)) (di_call_id inp))
      = Some (menu_path s) \<and>
    dom (active_calls (snd (handle_dtmf now inp st))) = dom (active_calls st) \<and>
    call_history (snd (handle_dtmf now inp st)) = call_history st"
  using dg act unfolding handle_dtmf_active [OF act] by (auto simp: Let_def)

theorem handle_dtmf_invalid_digit_witness:
  "active_calls demo_store (di_call_id (demo_dtmf ''5'')) = Some demo_session \<and>
   digit (demo_dtmf ''5'') \<notin> {''1'', ''2'', ''3'', ''9'', ''0''} \<and>
   handle_dtmf ''2024-01-01T10:05:00'' (demo_dtmf ''5'') demo_store =
      (Inr (Some \<lparr>dr_status = ''invalid'', dr_message = ''Invalid option. Try again.'',
                   dr_current_menu = Some ''main''\<rparr>),
       \<lparr>active_calls = [''CALL_100000'' \<mapsto> demo_session\<lparr>inputs := [''5'']\<rparr>],
        call_history = []\<rparr>)"
proof -
  have a: "active_calls demo_store (di_call_id (demo_dtmf ''5'')) = Some demo_session"
    by (simp add: demo_dtmf_def demo_store_def)
  have d: "digit (demo_dtmf ''5'') \<notin> {''1'', ''2'', ''3'', ''9'', ''0''}"
    by (simp add: demo_dtmf_def)
  show ?thesis
    using handle_dtmf_invalid_digit [OF a d, of "''2024-01-01T10:05:00''"] a d
    by (simp add: demo_dtmf_def demo_store_def demo_session_def)
qed

lemma demo_dtmf_sel:
  "di_call_id (demo_dtmf d) = ''CALL_100000''" "digit (demo_dtmf d) = d"
  by (simp_all add: demo_dtmf_def)

text \<open>
  C6. For a session of the active registry, \<open>handle_dtmf\<close> with digit 9 removes the
  session from the registry, appends to the archive a snapshot of it whose \<open>end_time\<close> is
  the time of the request (so it is not null), and returns status "transferred".
\<close>

theorem handle_dtmf_agent_archives:
  assumes act: "active_calls st (di_call_id inp) = Some s"
    and dg: "digit inp = ''9''"
  shows "handle_dtmf now inp st =
      (Inr (Some \<lparr>dr_status = ''transferred'', dr_message = ''Transferring to agent...'',
                   dr_current_menu = None\<rparr>),
       \<lparr>active_calls = (active_calls st)(di_call_id inp := None),
        call_history = call_history st @ [s\<lparr>end_time := Some now, inputs := inputs s @ [''9'']\<rparr>]\<rparr>) \<and>
    active_calls (snd (handle_dtmf now inp st)) (di_call_id inp) = None \<and>
    end_time (last (call_history (snd (handle_dtmf now inp st)))) = Some now \<and>
    end_time (last (call_history (snd (handle_dtmf now inp st)))) \<noteq> None"
  using dg unfolding handle_dtmf_active [OF act] by (simp add: Let_def)

theorem handle_dtmf_agent_archives_witness:
  "active_calls demo_store (di_call_id (demo_dtmf ''9'')) = Some demo_session \<and>
   digit (demo_dtmf ''9'') = ''9'' \<and>
   handle_dtmf ''2024-01-01T10:05:00'' (demo_dtmf ''9'') demo_store =
      (Inr (Some \<lparr>dr_status = ''transferred'', dr_message = ''Transferring to agent...'',
                   dr_current_menu = None\<rparr>),
       \<lparr>active_calls = Map.empty,
        call_history = [demo_session\<lparr>end_time := Some ''2024-01-01T10:05:00'', inputs := [''9'']\<rparr>]\<rparr>)"
proof -
  have a: "active_calls demo_store (di_call_id (demo_dtmf ''9'')) = Some demo_session"
    by (simp add: demo_dtmf_def demo_store_def)
  have d: "digit (demo_dtmf ''9'') = ''9''"
    by (simp add: demo_dtmf_def)
  show ?thesis
    using handle_dtmf_agent_archives [OF a d, of "''2024-01-01T10:05:00''"] a d
    by (simp add: demo_dtmf_def demo_store_def demo_session_def)
qed

text \<open>
  C10. For a call of the active registry and any digit string, \<open>handle_dtmf\<close> appends the
  digit to the session's \<open>inputs\<close>, also when the digit is unmapped and the status is
  "invalid": afterwards the session of the registry (or, for digit 9, its snapshot at the
  end of the archive) has the old \<open>inputs\<close> followed by the digit, one element more.
\<close>

theorem handle_dtmf_records_digit:
  assumes act: "active_calls st (di_call_id inp) = Some s"
  shows "(if digit inp = ''9''
          then active_calls (snd (handle_dtmf now inp st)) (di_call_id inp) = None \<and>
               map inputs (call_history (snd (handle_dtmf now inp st)))
                 = map inputs (call_history st) @ [inputs s @ [digit inp]]
          else map_option inputs (active_calls (snd (handle_dtmf now inp st)) (di_call_id inp))
                 = Some (inputs s @ [digit inp]) \<and>
               call_history (snd (handle_dtmf now inp st)) = call_history st) \<and>
         length (inputs s @ [digit inp]) = Suc (length (inputs s))"
  unfolding handle_dtmf_active [OF act] by (simp add: Let_def)

theorem handle_dtmf_records_digit_witness:
  "active_calls demo_store (di_call_id (demo_dtmf ''7'')) = Some demo_session \<and>
   map_option dr_status
     (reply_of (fst (handle_dtmf ''2024-01-01T10:05:00'' (demo_dtmf ''7'') demo_store)))
     = Some ''invalid'' \<and>
   map_option inputs
     (active_calls (snd (handle_dtmf ''2024-01-01T10:05:00'' (demo_dtmf ''7'') demo_store)) ''CALL_100000'')
     = Some [''7'']"
proof -
  have a: "active_calls demo_store (di_call_id (demo_dtmf ''7'')) = Some demo_session"
    by (simp add: demo_dtmf_def demo_store_def)
  have r: "fst (handle_dtmf ''2024-01-01T10:05:00'' (demo_dtmf ''7'') demo_store) =
      Inr (Some \<lparr>dr_status = ''invalid'', dr_message = ''Invalid option. Try again.'',
                  dr_current_menu = Some ''main''\<rparr>)"
    unfolding handle_dtmf_active [OF a]
    by (simp add: Let_def demo_dtmf_def demo_session_def)
  show ?thesis
    using handle_dtmf_records_digit [OF a, of "''2024-01-01T10:05:00''"] a
    by (simp add: r reply_of_def demo_dtmf_sel demo_session_def)
qed

section \<open>Starting and ending a call\<close>

lemma str_nat_not_Nil: "str_nat n \<noteq> []"
  by (subst str_nat.simps) simp

lemma digit_chars_inj: "a < 10 \<Longrightarrow> b < 10 \<Longrightarrow> digit_chars ! a = digit_chars ! b \<Longrightarrow> a = b"
proof -
  assume "a < 10" "b < 10" "digit_chars ! a = digit_chars ! b"
  moreover have "distinct digit_chars" by (simp add: digit_chars_def)
  moreover have "length digit_chars = 10" by (simp add: digit_chars_def)
  ultimately show "a = b" by (simp add: nth_eq_iff_index_eq)
qed

lemma str_nat_inj: "str_nat a = str_nat b \<Longrightarrow> a = b"
proof (induction a arbitrary: b rule: str_nat.induct)
  case (1 n)
  show ?case
  proof (cases "n < 10")
    case True
    then have n: "str_nat n = [digit_chars ! n]" by (subst str_nat.simps) simp
    show ?thesis
    proof (cases "b < 10")
      case True
      then have "str_nat b = [digit_chars ! b]" by (subst str_nat.simps) simp
      with n "1.prems" have "digit_chars ! n = digit_chars ! b" by simp
      with \<open>n < 10\<close> True show ?thesis by (rule digit_chars_inj)
    next
      case False
      then have "str_nat b = str_nat (b div 10) @ [digit_chars ! (b mod 10)]"
        by (subst str_nat.simps) simp
      with n "1.prems" have "str_nat (b div 10) = []" by simp
      then show ?thesis by (simp add: str_nat_not_Nil)
    qed
  next
    case False
    then have n: "str_nat n = str_nat (n div 10) @ [digit_chars ! (n mod 10)]"
      by (subst str_nat.simps) simp
    show ?thesis
    proof (cases "b < 10")
      case True
      then have "str_nat b = [digit_chars ! b]" by (subst str_nat.simps) simp
      with n "1.prems" have "str_nat (n div 10) = []" by simp
      then show ?thesis by (simp add: str_nat_not_Nil)
    next
      case bF: False
      then have "str_nat b = str_nat (b div 10) @ [digit_chars ! (b mod 10)]"
        by (subst str_nat.simps) simp
      with n "1.prems" have e: "str_nat (n div 10) = str_nat (b div 10)"
        and d: "digit_chars ! (n mod 10) = digit_chars ! (b mod 10)" by simp_all
      from "1.IH" [OF False e] have q: "n div 10 = b div 10" .
      have "n mod 10 = b mod 10" by (rule digit_chars_inj [OF _ _ d]) simp_all
      with q show ?thesis by (metis div_mult_mod_eq)
    qed
  qed
qed

text \<open>
  C5 as stated fails: the id is built from the random draw alone and the registry is not
  consulted, so a draw that repeats yields an id that is a key of the registry already.
\<close>

theorem start_call_fresh_id_counterexample:
  "reachable demo_store \<and>
   sr_call_id (fst (start_call 100000 ''2024-01-01T10:05:00''
      \<lparr>cs_caller_number = ''12345''\<rparr> demo_store)) = ''CALL_100000'' \<and>
   active_calls demo_store ''CALL_100000'' = Some demo_session \<and>
   sr_call_id (fst (start_call 100000 ''2024-01-01T10:05:00''
      \<lparr>cs_caller_number = ''12345''\<rparr> demo_store)) \<in> dom (active_calls demo_store)"
proof -
  have i: "sr_call_id (fst (start_call 100000 ''2024-01-01T10:05:00''
      \<lparr>cs_caller_number = ''12345''\<rparr> demo_store)) = ''CALL_100000''"
    by (simp add: start_call_def Let_def str_nat_100000)
  have a: "active_calls demo_store ''CALL_100000'' = Some demo_session"
    by (simp add: demo_store_def)
  from a have "''CALL_100000'' \<in> dom (active_calls demo_store)" by (simp add: domI)
  with i a reachable_demo_store show ?thesis by simp
qed

text \<open>
  C5, amended. For every store, caller number and draw, \<open>start_call\<close> yields the id
  "CALL_" followed by the decimal draw, stores under it a fresh session with
  \<open>current_menu\<close> "main", \<open>menu_path\<close> ["main"] and empty \<open>inputs\<close>, replacing whatever the
  key held and leaving the other keys and the archive alone, and returns status
  "connected" with the main menu's prompt. Two calls get the same id exactly when their
  draws are equal.
\<close>

theorem start_call_effect:
  "fst (start_call draw now call st) =
     \<lparr>sr_call_id = ''CALL_'' @ str_nat draw, sr_status = ''connected'',
      sr_prompt = prompt main_menu\<rparr> \<and>
   MENU_STRUCTURE ''main'' = Some main_menu \<and>
   active_calls (snd (start_call draw now call st)) =
     (active_calls st)(''CALL_'' @ str_nat draw \<mapsto>
        \<lparr>call_id = ''CALL_'' @ str_nat draw, caller_number = cs_caller_number call,
         start_time = now, end_time = None, current_menu = ''main'',
         menu_path = [''main''], inputs = []\<rparr>) \<and>
   call_history (snd (start_call draw now call st)) = call_history st \<and>
   (sr_call_id (fst (start_call draw now call st)) =
      sr_call_id (fst (start_call draw' now' call' st'))) = (draw = draw')"
  by (auto simp: start_call_def Let_def main_prompt_def MENU_STRUCTURE_main dest: str_nat_inj)

theorem start_call_effect_witness:
  "sr_call_id (fst (start_call 100001 ''2024-01-01T10:05:00''
      \<lparr>cs_caller_number = ''12345''\<rparr> demo_store)) = ''CALL_100001'' \<and>
   sr_status (fst (start_call 100001 ''2024-01-01T10:05:00''
      \<lparr>cs_caller_number = ''12345''\<rparr> demo_store)) = ''connected'' \<and>
   active_calls (snd (start_call 100001 ''2024-01-01T10:05:00''
      \<lparr>cs_caller_number = ''12345''\<rparr> demo_store)) ''CALL_100000'' = Some demo_session \<and>
   map_option menu_path (active_calls (snd (start_call 100001 ''2024-01-01T10:05:00''
      \<lparr>cs_caller_number = ''12345''\<rparr> demo_store)) ''CALL_100001'') = Some [''main'']"
proof -
  have n: "str_nat 100001 = ''100001''"
    by (simp add: str_nat.simps digit_chars_def)
  have a: "active_calls demo_store ''CALL_100000'' = Some demo_session"
    by (simp add: demo_store_def)
  show ?thesis
    using start_call_effect [of 100001 "''2024-01-01T10:05:00''"
        "\<lparr>cs_caller_number = ''12345''\<rparr>" demo_store 100001 "''2024-01-01T10:05:00''"
        "\<lparr>cs_caller_number = ''12345''\<rparr>" demo_store]
    by (simp add: n a)
qed

text \<open>
  C8.\<open>end_call\<close> returns a reply for every id (it has no failing branch). For an id that
  is not in the active registry the reply is "not_found" and the store is unchanged; for
  an id that is, the session gets its \<open>end_time\<close>, a copy is appended to the archive, the
  entry is removed and the reply is "ended". Ending the same id again is "not_found".
\<close>

theorem end_call_effect:
  "(active_calls st cid = None \<longrightarrow>
      end_call now cid st = (\<lparr>er_status = ''not_found''\<rparr>, st)) \<and>
   (active_calls st cid = Some s \<longrightarrow>
      end_call now cid st =
        (\<lparr>er_status = ''ended''\<rparr>,
         \<lparr>active_calls = (active_calls st)(cid := None),
          call_history = call_history st @ [s\<lparr>end_time := Some now\<rparr>]\<rparr>)) \<and>
   end_call now' cid (snd (end_call now cid st)) =
     (\<lparr>er_status = ''not_found''\<rparr>, snd (end_call now cid st))"
  by (simp add: end_call_def split: option.splits)

theorem end_call_effect_witness:
  "active_calls demo_store ''CALL_999999'' = None \<and>
   end_call ''2024-01-01T10:05:00'' ''CALL_999999'' demo_store =
     (\<lparr>er_status = ''not_found''\<rparr>, demo_store) \<and>
   active_calls demo_store ''CALL_100000'' = Some demo_session \<and>
   end_call ''2024-01-01T10:05:00'' ''CALL_100000'' demo_store =
     (\<lparr>er_status = ''ended''\<rparr>,
      \<lparr>active_calls = Map.empty,
       call_history = [demo_session\<lparr>end_time := Some ''2024-01-01T10:05:00''\<rparr>]\<rparr>) \<and>
   fst (end_call ''2024-01-01T10:06:00'' ''CALL_100000''
     (snd (end_call ''2024-01-01T10:05:00'' ''CALL_100000'' demo_store))) =
     \<lparr>er_status = ''not_found''\<rparr>"
proof -
  have n: "active_calls demo_store ''CALL_999999'' = None" by (simp add: demo_store_def)
  have a: "active_calls demo_store ''CALL_100000'' = Some demo_session"
    by (simp add: demo_store_def)
  have h: "call_history demo_store = []" by (simp add: demo_store_def)
  have e: "(active_calls demo_store)(''CALL_100000'' := None) = Map.empty"
    by (simp add: demo_store_def)
  note u = end_call_effect [of demo_store "''CALL_999999''" "''2024-01-01T10:05:00''"
      demo_session "''2024-01-01T10:06:00''"]
  note t = end_call_effect [of demo_store "''CALL_100000''" "''2024-01-01T10:05:00''"
      demo_session "''2024-01-01T10:06:00''"]
  from u n have r0: "end_call ''2024-01-01T10:05:00'' ''CALL_999999'' demo_store =
     (\<lparr>er_status = ''not_found''\<rparr>, demo_store)" by simp
  from t a have r1: "end_call ''2024-01-01T10:05:00'' ''CALL_100000'' demo_store =
     (\<lparr>er_status = ''ended''\<rparr>,
      \<lparr>active_calls = Map.empty,
       call_history = [demo_session\<lparr>end_time := Some ''2024-01-01T10:05:00''\<rparr>]\<rparr>)"
    by (simp add: h e)
  from t have "end_call ''2024-01-01T10:06:00'' ''CALL_100000''
     (snd (end_call ''2024-01-01T10:05:00'' ''CALL_100000'' demo_store)) =
     (\<lparr>er_status = ''not_found''\<rparr>,
      snd (end_call ''2024-01-01T10:05:00'' ''CALL_100000'' demo_store))" by blast
  then have r2: "fst (end_call ''2024-01-01T10:06:00'' ''CALL_100000''
     (snd (end_call ''2024-01-01T10:05:00'' ''CALL_100000'' demo_store))) =
     \<lparr>er_status = ''not_found''\<rparr>" by simp
  show ?thesis by (intro conjI) (fact n r0 a r1 r2)+
qed

section \<open>Free text\<close>

lemma first_match:
  "(if A then Some (a, u) else if B then Some (b, v) else if C then Some (c, w)
    else if D then Some (d, x) else if E then Some (e, y)
    else if F then Some (f, z) else None) = Some (i, m) \<Longrightarrow>
   i \<in> {a, b, c, d, e, f}"
  by (simp split: if_splits)

lemma detect_intent_intents:
  assumes "detect_intent t = Some (i, m)"
  shows "i \<in> {''booking'', ''train_status'', ''refund'', ''agent'', ''main'', ''pnr_lookup''}"
  using assms unfolding detect_intent_def Let_def by (rule first_match)

lemma conversation_classified:
  assumes d: "detect_intent (strip (input_text req)) = Some (i, m)"
  shows "conversation configured service req st =
    (\<lparr>cv_intent = i, cv_message = m, cv_call_id = cr_call_id req\<rparr>,
     case attached (cr_call_id req) st of
       None \<Rightarrow> st
     | Some (c, sess) \<Rightarrow>
         if i \<in> {''booking'', ''train_status'', ''refund'', ''main''} then
           st\<lparr>active_calls := (active_calls st)(c \<mapsto>
                sess\<lparr>current_menu := i, menu_path := menu_path sess @ [i]\<rparr>)\<rparr>
         else st)"
proof -
  from detect_intent_intents [OF d] have "i \<noteq> []" by auto
  then show ?thesis
    by (simp add: conversation_def Let_def d split: option.splits prod.splits)
qed

lemma conversation_unclassified:
  assumes d: "detect_intent (strip (input_text req)) = None"
  shows "snd (conversation configured service req st) = st"
  by (simp add: conversation_def Let_def d split: option.splits)

lemma attached_Some:
  "attached cid st = Some (c, s) \<Longrightarrow> cid = Some c \<and> active_calls st c = Some s"
  by (auto simp: attached_def split: option.splits if_splits)

text \<open>
  C7. \<open>conversation\<close> never touches the archive or the key set of the active registry, and
  it returns the classified intent and message with the request's id whenever the
  classifier matches. The store changes only when the request's id is a key of the active
  registry and the intent is one of booking, train_status, refund, main. For the intents
  agent and pnr_lookup, and when the request has no id or an id that is not in the
  registry, the store is left as it was: a text classified as agent ends no call.
\<close>

theorem conversation_frame:
  "call_history (snd (conversation configured service req st)) = call_history st \<and>
   dom (active_calls (snd (conversation configured service req st))) = dom (active_calls st) \<and>
   (detect_intent (strip (input_text req)) = Some (intent, message) \<longrightarrow>
      fst (conversation configured service req st) =
        \<lparr>cv_intent = intent, cv_message = message, cv_call_id = cr_call_id req\<rparr>) \<and>
   (snd (conversation configured service req st) \<noteq> st \<longrightarrow>
      (\<exists>c s i m. cr_call_id req = Some c \<and> active_calls st c = Some s \<and>
         detect_intent (strip (input_text req)) = Some (i, m) \<and>
         i \<in> {''booking'', ''train_status'', ''refund'', ''main''})) \<and>
   (detect_intent (strip (input_text req)) = Some (intent, message) \<longrightarrow>
      intent \<in> {''agent'', ''pnr_lookup''} \<longrightarrow>
      snd (conversation configured service req st) = st) \<and>
   ((case cr_call_id req of None \<Rightarrow> True | Some c \<Rightarrow> active_calls st c = None) \<longrightarrow>
      snd (conversation configured service req st) = st)"
proof (cases "detect_intent (strip (input_text req))")
  case None
  then show ?thesis by (simp add: conversation_unclassified)
next
  case (Some p)
  obtain i m where p: "p = (i, m)" by (cases p)
  with Some have d: "detect_intent (strip (input_text req)) = Some (i, m)" by simp
  note c = conversation_classified [OF d, of configured service st]
  show ?thesis
  proof (cases "attached (cr_call_id req) st")
    case None
    then have "snd (conversation configured service req st) = st" by (simp add: c)
    with d show ?thesis by (simp add: c)
  next
    case (Some q)
    obtain k s where q: "q = (k, s)" by (cases q)
    with Some have a: "attached (cr_call_id req) st = Some (k, s)" by simp
    from attached_Some [OF a] have kc: "cr_call_id req = Some k"
      and ks: "active_calls st k = Some s" by simp_all
    show ?thesis
    proof (cases "i \<in> {''booking'', ''train_status'', ''refund'', ''main''}")
      case True
      with a kc ks d show ?thesis by (auto simp: c)
    next
      case False
      with a have "snd (conversation configured service req st) = st" by (simp add: c)
      with d show ?thesis by (simp add: c)
    qed
  qed
qed

lemma demo_request_sel:
  "input_text (demo_request t) = t" "cr_call_id (demo_request t) = Some ''CALL_100000''"
  by (simp_all add: demo_request_def)

lemma strip_agent: "strip ''  I need an AGENT '' = ''I need an AGENT''"
  by (simp add: strip_def isspace_def)

lemma detect_agent: "detect_intent ''I need an AGENT'' = Some (''agent'', agent_reply)"
  by (simp add: detect_intent_def Let_def any_in_def lower_def char_lower_def
        ascii_lowercase_def ascii_uppercase_def)

theorem conversation_frame_witness:
  "active_calls demo_store ''CALL_100000'' = Some demo_session \<and>
   detect_intent (strip (input_text (demo_request ''  I need an AGENT ''))) =
     Some (''agent'', agent_reply) \<and>
   ''agent'' \<in> {''agent'', ''pnr_lookup''} \<and>
   conversation False (\<lambda>t. None) (demo_request ''  I need an AGENT '') demo_store =
     (\<lparr>cv_intent = ''agent'', cv_message = agent_reply,
       cv_call_id = Some ''CALL_100000''\<rparr>, demo_store)"
proof -
  have a: "active_calls demo_store ''CALL_100000'' = Some demo_session"
    by (simp add: demo_store_def)
  have d: "detect_intent (strip (input_text (demo_request ''  I need an AGENT ''))) =
     Some (''agent'', agent_reply)"
    by (simp only: demo_request_sel strip_agent detect_agent)
  have m: "''agent'' \<in> {''agent'', ''pnr_lookup''}" by simp
  note t = conversation_frame [of False "\<lambda>t. None" "demo_request ''  I need an AGENT ''"
      demo_store "''agent''" agent_reply]
  from t d have f: "fst (conversation False (\<lambda>t. None) (demo_request ''  I need an AGENT '')
      demo_store) = \<lparr>cv_intent = ''agent'', cv_message = agent_reply,
       cv_call_id = Some ''CALL_100000''\<rparr>"
    by (simp add: demo_request_sel)
  from t d m have s: "snd (conversation False (\<lambda>t. None) (demo_request ''  I need an AGENT '')
      demo_store) = demo_store"
    by blast
  from f s have "conversation False (\<lambda>t. None) (demo_request ''  I need an AGENT '') demo_store =
     (\<lparr>cv_intent = ''agent'', cv_message = agent_reply,
       cv_call_id = Some ''CALL_100000''\<rparr>, demo_store)"
    by (simp add: prod_eq_iff)
  with a d m show ?thesis by (intro conjI)
qed

lemma no_match:
  "\<not> A \<Longrightarrow> \<not> B \<Longrightarrow> \<not> C \<Longrightarrow> \<not> D \<Longrightarrow> \<not> E \<Longrightarrow> \<not> F \<Longrightarrow>
   (if A then Some a else if B then Some b else if C then Some c
    else if D then Some d else if E then Some e
    else if F then Some f else None) = None"
  by simp

lemma concat_take_singletons: "concat (take n (map (\<lambda>c. [c]) xs)) = take n xs"
  by (induction xs arbitrary: n) (simp_all add: take_Cons split: nat.splits)

lemma detect_intent_with_ascii: "detect_intent_with lower ascii_digits t = detect_intent t"
  unfolding detect_intent_with_def detect_intent_def ascii_digits_def Let_def length_map
    concat_take_singletons
  by (rule refl)

lemma conversation_with_ascii:
  "conversation_with strip lower ascii_digits configured service req st =
     conversation configured service req st"
  unfolding conversation_with_def conversation_def detect_intent_with_ascii by (rule refl)

lemma conversation_with_no_intent:
  assumes d: "detect_intent_with lower_fn digits_fn (strip_fn (input_text req)) = None"
    and nf: "\<not> configured"
  shows "conversation_with strip_fn lower_fn digits_fn configured service req st =
     (\<lparr>cv_intent = ''unknown'', cv_message = help_msg, cv_call_id = cr_call_id req\<rparr>, st)"
  using nf by (simp add: conversation_with_def Let_def d openai_fallback_def)

text \<open>
  C9. With the fallback not configured, and whatever \<open>strip()\<close>, \<open>lower()\<close> and \<open>isdigit()\<close>
  do: when none of the keywords of the five rules occurs in the stripped and lower-cased
  text, which is the text the rules are tried on, and that text holds fewer than six digit
  characters, \<open>conversation\<close> returns the intent "unknown" with the fixed help message and
  the request's id, and the store is unchanged.
\<close>

theorem conversation_unknown:
  assumes nf: "\<not> configured"
    and kw: "\<forall>k \<in> set [''book'', ''ticket'', ''booking'', ''reserve'',
      ''status'', ''pnr'', ''flight status'', ''train status'',
      ''refund'', ''cancel'', ''tatkal'', ''money back'',
      ''agent'', ''human'', ''representative'', ''help'',
      ''back'', ''main'', ''menu''].
               \<not> str_in k (lower_fn (strip_fn (input_text req)))"
    and dg: "length (digits_fn (lower_fn (strip_fn (input_text req)))) < 6"
  shows "conversation_with strip_fn lower_fn digits_fn configured service req st =
     (\<lparr>cv_intent = ''unknown'',
       cv_message = ''Sorry, I didn't get that. You can say 'book ticket', 'train status', or 'refund'.'',
       cv_call_id = cr_call_id req\<rparr>, st)"
proof -
  let ?t = "lower_fn (strip_fn (input_text req))"
  from kw have k: "\<not> str_in ''book'' ?t"
    "\<not> str_in ''ticket'' ?t"
    "\<not> str_in ''booking'' ?t"
    "\<not> str_in ''reserve'' ?t"
    "\<not> str_in ''status'' ?t"
    "\<not> str_in ''pnr'' ?t"
    "\<not> str_in ''flight status'' ?t"
    "\<not> str_in ''train status'' ?t"
    "\<not> str_in ''refund'' ?t"
    "\<not> str_in ''cancel'' ?t"
    "\<not> str_in ''tatkal'' ?t"
    "\<not> str_in ''money back'' ?t"
    "\<not> str_in ''agent'' ?t"
    "\<not> str_in ''human'' ?t"
    "\<not> str_in ''representative'' ?t"
    "\<not> str_in ''help'' ?t"
    "\<not> str_in ''back'' ?t"
    "\<not> str_in ''main'' ?t"
    "\<not> str_in ''menu'' ?t"
    by simp_all
  have r1: "\<not> any_in [''book'', ''ticket'', ''booking'', ''reserve''] ?t"
    using k by (simp add: any_in_def)
  have r2: "\<not> any_in [''status'', ''pnr'', ''flight status'', ''train status''] ?t"
    using k by (simp add: any_in_def)
  have r3: "\<not> any_in [''refund'', ''cancel'', ''tatkal'', ''money back''] ?t"
    using k by (simp add: any_in_def)
  have r4: "\<not> any_in [''agent'', ''human'', ''representative'', ''help''] ?t"
    using k by (simp add: any_in_def)
  have r5: "\<not> any_in [''back'', ''main'', ''menu''] ?t"
    using k by (simp add: any_in_def)
  from dg have r6: "\<not> 6 \<le> length (digits_fn ?t)" by simp
  have d: "detect_intent_with lower_fn digits_fn (strip_fn (input_text req)) = None"
    unfolding detect_intent_with_def Let_def by (rule no_match [OF r1 r2 r3 r4 r5 r6])
  from conversation_with_no_intent [where strip_fn = strip_fn and lower_fn = lower_fn
      and digits_fn = digits_fn and req = req, OF d nf]
  show ?thesis by (simp add: help_msg_def)
qed

theorem conversation_unknown_witness:
  "\<not> False \<and>
   list_all (\<lambda>k. \<not> str_in k (lower (strip (input_text (demo_request '' xyz 12345 '')))))
     [''book'', ''ticket'', ''booking'', ''reserve'',
      ''status'', ''pnr'', ''flight status'', ''train status'',
      ''refund'', ''cancel'', ''tatkal'', ''money back'',
      ''agent'', ''human'', ''representative'', ''help'',
      ''back'', ''main'', ''menu''] \<and>
   length (ascii_digits (lower (strip (input_text (demo_request '' xyz 12345 ''))))) < 6 \<and>
   conversation_with strip lower ascii_digits False (\<lambda>t. Some ''never asked'')
       (demo_request '' xyz 12345 '') demo_store =
     (\<lparr>cv_intent = ''unknown'',
       cv_message = ''Sorry, I didn't get that. You can say 'book ticket', 'train status', or 'refund'.'',
       cv_call_id = Some ''CALL_100000''\<rparr>, demo_store) \<and>
   conversation False (\<lambda>t. Some ''never asked'') (demo_request '' xyz 12345 '') demo_store =
     (\<lparr>cv_intent = ''unknown'',
       cv_message = ''Sorry, I didn't get that. You can say 'book ticket', 'train status', or 'refund'.'',
       cv_call_id = Some ''CALL_100000''\<rparr>, demo_store)"
proof -
  have l: "lower (strip (input_text (demo_request '' xyz 12345 ''))) = ''xyz 12345''"
    by (simp add: demo_request_sel strip_def isspace_def lower_def char_lower_def
          ascii_lowercase_def ascii_uppercase_def)
  have k: "list_all (\<lambda>k. \<not> str_in k (lower (strip (input_text (demo_request '' xyz 12345 '')))))
     [''book'', ''ticket'', ''booking'', ''reserve'',
      ''status'', ''pnr'', ''flight status'', ''train status'',
      ''refund'', ''cancel'', ''tatkal'', ''money back'',
      ''agent'', ''human'', ''representative'', ''help'',
      ''back'', ''main'', ''menu'']"
    unfolding l by simp
  have g: "length (ascii_digits (lower (strip (input_text (demo_request '' xyz 12345 ''))))) < 6"
    unfolding l by (simp add: ascii_digits_def isdigit_def)
  from k have b: "\<forall>k \<in> set [''book'', ''ticket'', ''booking'', ''reserve'',
      ''status'', ''pnr'', ''flight status'', ''train status'',
      ''refund'', ''cancel'', ''tatkal'', ''money back'',
      ''agent'', ''human'', ''representative'', ''help'',
      ''back'', ''main'', ''menu''].
        \<not> str_in k (lower (strip (input_text (demo_request '' xyz 12345 ''))))"
    by (simp only: list_all_iff)
  have n: "\<not> False" by simp
  from conversation_unknown [where strip_fn = strip and lower_fn = lower
      and digits_fn = ascii_digits and configured = False
      and req = "demo_request '' xyz 12345 ''" and service = "\<lambda>t. Some ''never asked''"
      and st = demo_store, OF n b g]
  have w: "conversation_with strip lower ascii_digits False (\<lambda>t. Some ''never asked'')
       (demo_request '' xyz 12345 '') demo_store =
     (\<lparr>cv_intent = ''unknown'',
       cv_message = ''Sorry, I didn't get that. You can say 'book ticket', 'train status', or 'refund'.'',
       cv_call_id = Some ''CALL_100000''\<rparr>, demo_store)"
    by (simp add: demo_request_sel)
  from w have c: "conversation False (\<lambda>t. Some ''never asked'') (demo_request '' xyz 12345 '')
       demo_store =
     (\<lparr>cv_intent = ''unknown'',
       cv_message = ''Sorry, I didn't get that. You can say 'book ticket', 'train status', or 'refund'.'',
       cv_call_id = Some ''CALL_100000''\<rparr>, demo_store)"
    by (simp only: conversation_with_ascii)
  from n k g w c show ?thesis by (intro conjI)
qed

end
